theory Spec2Isabelle
  imports Main "HOL-Library.Sublist"
begin

section \<open>The user resolver of Rad-it-Server (src/resolvers/user.ts)\<close>

text \<open>
  The resolver class \<open>UserResolver\<close> has five operations: \<open>forgotPassword\<close>, \<open>me\<close>,
  \<open>register\<close>, \<open>login\<close> and \<open>logout\<close>. Each is an asynchronous request handler that
  talks to collaborators handed to it in the request context: the entity manager
  \<open>em\<close> (the User Store), \<open>redis\<close> (the Token Store), the session of the request, the
  response, the mailer and the console.

  The embedding is a state-passing one. What a collaborator answers is a parameter of
  the operation; what the operation does to a collaborator is recorded in a \<open>world\<close>
  that is passed in and returned. A rejected promise (an exception that leaves the
  resolver) is the left summand of the result.
\<close>

subsection \<open>Data\<close>

text \<open>\<open>class FieldError { field: string; message: string }\<close>\<close>

record FieldError =
  field :: string
  message :: string

text \<open>
  \<open>UsernamePasswordInput\<close> is imported from \<open>utils/UsernamePasswordInput\<close>; the resolver
  reads its \<open>username\<close>, \<open>email\<close> and \<open>password\<close>.
\<close>

record UsernamePasswordInput =
  username :: string
  email :: string
  password :: string

text \<open>
  The column values of the insert statement that \<open>register\<close> issues: the three
  columns above (the password column holds the hash) and the two timestamps, in
  milliseconds.
\<close>

record UserRow = UsernamePasswordInput +
  created_at :: nat
  updated_at :: nat

text \<open>
  A stored user: the row plus the key the store gave it. The resolver reads \<open>user.id\<close>
  and \<open>user.password\<close>. The key is a JavaScript number.
\<close>

record User = UserRow +
  id_col :: int

text \<open>
  \<open>class UserResponse { errors?: FieldError[]; user?: User }\<close>: both fields are
  optional, and \<open>None\<close> stands for an absent (undefined) field.
\<close>

record UserResponse =
  errors :: "FieldError list option"
  user :: "User option"

text \<open>The criteria objects handed to \<open>em.findOne(User, ...)\<close>.\<close>

datatype criteria = ById int | ByEmail string | ByUsername string

text \<open>
  The error caught around the insert. The resolver reads only \<open>err.detail\<close>, which the
  database driver fills for some errors and leaves undefined for others.
\<close>

record DriverError =
  detail :: "string option"

datatype insert_outcome = Returned "User list" | Threw DriverError

text \<open>The error object a session store hands to the callback of \<open>destroy\<close>.\<close>

datatype js_error = Error string

text \<open>
  The exceptions a resolver's own code raises: the \<open>TypeError\<close> of reading \<open>includes\<close>
  from an undefined \<open>err.detail\<close>, and the \<open>ReferenceError\<close> of evaluating an identifier
  that the file neither imports nor declares. A call to a collaborator that the file
  does import and that stands outside a \<open>try\<close> block (\<open>em.findOne\<close>, \<open>redis.set\<close>,
  \<open>argon2\<close>) is taken to return.
\<close>

datatype failure = TypeError | ReferenceError

subsection \<open>JavaScript primitives\<close>

text \<open>\<open>s.includes(sub)\<close>: whether \<open>sub\<close> occurs in \<open>s\<close> as a contiguous run.\<close>

fun includes_str :: "string \<Rightarrow> string \<Rightarrow> bool" where
  "includes_str [] sub = (sub = [])"
| "includes_str (c # cs) sub = (prefix sub (c # cs) \<or> includes_str cs sub)"

text \<open>
  Truthiness of \<open>req.session.userId\<close>, a number or undefined: undefined and \<open>0\<close> are
  falsy, every other number is truthy.
\<close>

definition truthy :: "int option \<Rightarrow> bool" where
  "truthy v = (case v of None \<Rightarrow> False | Some n \<Rightarrow> n \<noteq> 0)"

subsection \<open>The Token Store\<close>

text \<open>
  Redis keeps, for a key, a value and the instant at which the key expires. Instants
  and durations are in milliseconds. \<open>SET key value EX n\<close> (\<open>OptEX\<close>) lets the key live for
  \<open>n\<close> seconds, \<open>SET key value PX n\<close> (\<open>OptPX\<close>) for \<open>n\<close> milliseconds; \<open>GET\<close> answers the value
  until the instant of expiry and nothing from then on.
\<close>

type_synonym redis_store = "string \<rightharpoonup> (int \<times> nat)"

datatype expiry_unit = OptEX | OptPX

definition lifetime_ms :: "expiry_unit \<Rightarrow> nat \<Rightarrow> nat" where
  "lifetime_ms unit n = (case unit of OptEX \<Rightarrow> n * 1000 | OptPX \<Rightarrow> n)"

definition redis_set :: "nat \<Rightarrow> string \<Rightarrow> int \<Rightarrow> expiry_unit \<Rightarrow> nat \<Rightarrow> redis_store \<Rightarrow> redis_store" where
  "redis_set now key v unit n r = r(key \<mapsto> (v, now + lifetime_ms unit n))"

definition redis_get :: "nat \<Rightarrow> string \<Rightarrow> redis_store \<Rightarrow> int option" where
  "redis_get now key r =
     (case r key of
        None \<Rightarrow> None
      | Some (v, expiry) \<Rightarrow> if now < expiry then Some v else None)"

subsection \<open>The world a resolver acts on\<close>

text \<open>
  \<open>queries\<close> and \<open>inserts\<close> are the calls of \<open>em.findOne\<close> and the insert statements the
  resolver has issued, \<open>redis\<close> is the content of the Token Store, \<open>mails\<close> the mails
  handed to the mailer (address and body), \<open>session_userId\<close> is \<open>req.session.userId\<close>,
  \<open>cleared_cookies\<close> the calls of \<open>res.clearCookie\<close> and \<open>console\<close> what \<open>console.log\<close>
  has printed.
\<close>

record world =
  queries :: "criteria list"
  inserts :: "UserRow list"
  redis :: redis_store
  mails :: "(string \<times> string) list"
  session_userId :: "int option"
  cleared_cookies :: "string list"
  console :: "js_error list"

subsection \<open>forgotPassword\<close>

text \<open>
  \<open>FORGET_PASSWORD_PREFIX\<close> comes from \<open>constants\<close> and is a parameter here, as are the
  store's answer \<open>findOne\<close>, the token \<open>v4\<close> draws and the clock.
  The time-to-live argument is the source's \<open>1000 * 60 * 60 * 24 * 3\<close>, handed over
  with the unit \<open>"ex"\<close>.

  After the awaited \<open>redis.set\<close> the source has
  \<^verbatim>\<open>await sendEmail(email, `<a href="...change-password/${token}">reset password</a>`)\<close>
  and the identifier \<open>sendEmail\<close> is neither imported (the imports of the file name
  \<open>User\<close>, \<open>MyContext\<close>, the decorators, \<open>argon2\<close>, \<open>EntityManager\<close>, the two constants,
  \<open>UsernamePasswordInput\<close>, \<open>validateRegister\<close> and \<open>v4\<close>) nor declared. Evaluating the
  callee raises \<open>ReferenceError\<close> before any argument is evaluated: no mail is handed
  over, and \<open>return true\<close> is not reached. The token stored before stays stored.
\<close>

definition forgotPassword ::
  "(criteria \<Rightarrow> User option) \<Rightarrow> string \<Rightarrow> string \<Rightarrow> nat
     \<Rightarrow> string \<Rightarrow> world \<Rightarrow> (failure + bool) \<times> world" where
  "forgotPassword findOne v4 FORGET_PASSWORD_PREFIX now email_arg w =
     (let w1 = w\<lparr>queries := queries w @ [ByEmail email_arg]\<rparr> in
      case findOne (ByEmail email_arg) of
        None \<Rightarrow> (Inr True, w1)
      | Some u \<Rightarrow>
          (let token = v4;
               w2 = w1\<lparr>redis := redis_set now (FORGET_PASSWORD_PREFIX @ token) (id_col u)
                                   OptEX (1000 * 60 * 60 * 24 * 3) (redis w1)\<rparr>
           in (Inl ReferenceError, w2)))"

subsection \<open>me\<close>

definition me :: "(criteria \<Rightarrow> User option) \<Rightarrow> world \<Rightarrow> (failure + User option) \<times> world" where
  "me findOne w =
     (if \<not> truthy (session_userId w) then (Inr None, w)
      else case session_userId w of
             None \<Rightarrow> (Inr None, w)
           | Some uid \<Rightarrow> (Inr (findOne (ById uid)), w\<lparr>queries := queries w @ [ById uid]\<rparr>))"

subsection \<open>register\<close>

text \<open>
  \<open>validateRegister\<close> is imported from \<open>utils/validateRegister\<close> and is a parameter: it
  answers null (\<open>None\<close>) or an array of field errors. The test \<open>if (errors)\<close> is
  JavaScript truthiness, and every array is truthy, the empty one too. The hash
  function, the store's answer to the insert and the two readings of the clock are
  parameters as well. \<open>result[0]\<close> of an empty array is undefined.
\<close>

definition register ::
  "(UsernamePasswordInput \<Rightarrow> FieldError list option) \<Rightarrow> (string \<Rightarrow> string)
     \<Rightarrow> (UserRow \<Rightarrow> insert_outcome) \<Rightarrow> nat \<Rightarrow> nat
     \<Rightarrow> UsernamePasswordInput \<Rightarrow> world \<Rightarrow> (failure + UserResponse) \<times> world" where
  "register validateRegister argon2_hash em_insert t_created t_updated options w =
     (case validateRegister options of
        Some errs \<Rightarrow> (Inr \<lparr>errors = Some errs, user = None\<rparr>, w)
      | None \<Rightarrow>
          (let hashedPassword = argon2_hash (password options);
               row = \<lparr>username = username options, email = email options,
                      password = hashedPassword,
                      created_at = t_created, updated_at = t_updated\<rparr>;
               w1 = w\<lparr>inserts := inserts w @ [row]\<rparr>
           in case em_insert row of
                Returned result \<Rightarrow>
                  (Inr \<lparr>errors = None,
                        user = (case result of [] \<Rightarrow> None | u # _ \<Rightarrow> Some u)\<rparr>, w1)
              | Threw err \<Rightarrow>
                  (case detail err of
                     None \<Rightarrow> (Inl TypeError, w1)
                   | Some d \<Rightarrow>
                       if includes_str d ''already exists''
                       then (Inr \<lparr>errors = Some [\<lparr>field = ''username'',
                                     message = ''this username has already been taken''\<rparr>],
                                  user = None\<rparr>, w1)
                       else (Inr \<lparr>errors = None, user = None\<rparr>, w1))))"

subsection \<open>login\<close>

definition login ::
  "(criteria \<Rightarrow> User option) \<Rightarrow> (string \<Rightarrow> string \<Rightarrow> bool)
     \<Rightarrow> string \<Rightarrow> string \<Rightarrow> world \<Rightarrow> (failure + UserResponse) \<times> world" where
  "login findOne argon2_verify usernameOrEmail password_arg w =
     (let key = (if includes_str usernameOrEmail ''@''
                 then ByEmail usernameOrEmail else ByUsername usernameOrEmail);
          w1 = w\<lparr>queries := queries w @ [key]\<rparr>
      in case findOne key of
           None \<Rightarrow>
             (Inr \<lparr>errors = Some [\<lparr>field = ''usernameOrEmail'',
                         message = ''username does not exist''\<rparr>],
                   user = None\<rparr>, w1)
         | Some u \<Rightarrow>
             if \<not> argon2_verify (password u) password_arg
             then (Inr \<lparr>errors = Some [\<lparr>field = ''password'',
                              message = ''incorrect password''\<rparr>],
                        user = None\<rparr>, w1)
             else (Inr \<lparr>errors = None, user = Some u\<rparr>,
                   w1\<lparr>session_userId := Some (id_col u)\<rparr>))"

subsection \<open>logout\<close>

text \<open>
  \<open>req.session.destroy\<close> calls back with the error of the session store, or with
  nothing; that value is the parameter \<open>destroy_err\<close>. \<open>COOKIE_NAME\<close> comes from
  \<open>constants\<close> and is a parameter too. The promise is only ever resolved.
\<close>

definition logout :: "js_error option \<Rightarrow> string \<Rightarrow> world \<Rightarrow> (failure + bool) \<times> world" where
  "logout destroy_err COOKIE_NAME w =
     (let w1 = w\<lparr>cleared_cookies := cleared_cookies w @ [COOKIE_NAME]\<rparr> in
      case destroy_err of
        Some err \<Rightarrow> (Inr False, w1\<lparr>console := console w1 @ [err]\<rparr>)
      | None \<Rightarrow> (Inr True, w1))"

subsection \<open>What a client sees of a User\<close>

text \<open>The stored record as a JavaScript object: its property names and values.\<close>

datatype jsval = JNum int | JStr string

definition stored_fields :: "User \<Rightarrow> (string \<times> jsval) list" where
  "stored_fields u =
     [(''id'', JNum (id_col u)), (''username'', JStr (username u)), (''email'', JStr (email u)),
      (''password'', JStr (password u)), (''created_at'', JNum (int (created_at u))),
      (''updated_at'', JNum (int (updated_at u)))]"

text \<open>
  Modelled from the spec: the entity class \<open>User\<close> of \<open>entities/User\<close>, whose field
  declarations decide which properties of a returned user reach the client, is not
  among the sources. The spec has the operation return the stored record with no
  password field exposed outward: the outward record is the stored one without its
  \<open>password\<close> property.
\<close>

definition outward :: "User \<Rightarrow> (string \<times> jsval) list" where
  "outward u = filter (\<lambda>kv. fst kv \<noteq> ''password'') (stored_fields u)"

subsection \<open>Concrete values for the examples\<close>

definition world0 :: world where
  "world0 = \<lparr>queries = [], inserts = [], redis = Map.empty, mails = [],
              session_userId = None, cleared_cookies = [], console = []\<rparr>"

definition alice :: User where
  "alice = \<lparr>username = ''alice'', email = ''alice@x.com'', password = ''$argon2id$hash'',
             created_at = 1000, updated_at = 1000, id_col = 7\<rparr>"

text \<open>A store that holds \<open>alice\<close> and nobody else.\<close>

definition alice_only :: "criteria \<Rightarrow> User option" where
  "alice_only c =
     (if c = ById 7 \<or> c = ByEmail ''alice@x.com'' \<or> c = ByUsername ''alice''
      then Some alice else None)"

section \<open>Properties\<close>

subsection \<open>Auxiliary facts\<close>

lemma includes_str_sublist: "includes_str s sub \<longleftrightarrow> sublist sub s"
  by (induction s) (simp_all add: sublist_Cons_right)

lemma includes_str_char: "includes_str s [c] \<longleftrightarrow> c \<in> set s"
  by (induction s) auto

lemma redis_get_set_same:
  "redis_get t k (redis_set now k v unit n r) =
     (if t < now + lifetime_ms unit n then Some v else None)"
  by (simp add: redis_get_def redis_set_def)

lemma redis_get_set_other:
  "k' \<noteq> k \<Longrightarrow> redis_get t k' (redis_set now k v unit n r) = redis_get t k' r"
  by (simp add: redis_get_def redis_set_def)

lemma forgotPassword_registered:
  assumes "findOne (ByEmail e) = Some u"
  shows "forgotPassword findOne tok P now e w =
           (Inl ReferenceError,
            w\<lparr>queries := queries w @ [ByEmail e],
              redis := redis_set now (P @ tok) (id_col u) OptEX (1000 * 60 * 60 * 24 * 3)
                         (redis w)\<rparr>)"
  using assms by (simp add: forgotPassword_def Let_def)

lemma forgotPassword_unregistered:
  assumes "findOne (ByEmail e) = None"
  shows "forgotPassword findOne tok P now e w =
           (Inr True, w\<lparr>queries := queries w @ [ByEmail e]\<rparr>)"
  using assms by (simp add: forgotPassword_def Let_def)

text \<open>
  How long a reset token lives: the key answers the user's id for 259,200,000 seconds
  from the call, that is 259,200,000,000 ms.
\<close>

lemma forgotPassword_token_lifetime:
  assumes "findOne (ByEmail e) = Some u"
  shows "redis_get t (P @ tok) (redis (snd (forgotPassword findOne tok P now e w))) =
           (if t < now + 259200000000 then Some (id_col u) else None)"
  using assms by (simp add: forgotPassword_registered redis_get_set_same lifetime_ms_def)

text \<open>
  The branch of \<open>register\<close> for an insert error whose detail says \<open>already exists\<close>: one
  field error, on \<open>username\<close>, and no exception.
\<close>

lemma register_already_exists:
  assumes "validateRegister options = None"
    and "em_insert \<lparr>username = username options, email = email options,
                     password = argon2_hash (password options),
                     created_at = tc, updated_at = tu\<rparr> = Threw err"
    and "detail err = Some d" and "sublist ''already exists'' d"
  shows "fst (register validateRegister argon2_hash em_insert tc tu options w) =
           Inr \<lparr>errors = Some [\<lparr>field = ''username'',
                    message = ''this username has already been taken''\<rparr>], user = None\<rparr>"
  using assms by (simp add: register_def Let_def includes_str_sublist)

text \<open>\<open>login\<close> answers with exactly one of a single field error and a user.\<close>

lemma login_response_exclusive:
  "(\<exists>e. fst (login findOne argon2_verify s p w) = Inr \<lparr>errors = Some [e], user = None\<rparr>)
   \<or> (\<exists>u. fst (login findOne argon2_verify s p w) = Inr \<lparr>errors = None, user = Some u\<rparr>)"
  by (simp add: login_def Let_def split: option.splits)

subsection \<open>register: a duplicate account\<close>

text \<open>
  C1. A register call whose insert fails with a uniqueness violation answers with a
  single field error tagged to the violating field, \<open>username\<close> or \<open>email\<close>. The code
  does not do so for the email: when the store rejects the insert because the email
  \<open>alice@x.com\<close> is already there (the detail of the driver's error names the column
  \<open>email\<close>), \<open>register\<close> answers with a field error on \<open>username\<close> that says the
  username has been taken.
\<close>

theorem register_duplicate_email_reported_as_username:
  "fst (register (\<lambda>_. None) (\<lambda>p. ''$argon2id$'' @ p)
          (\<lambda>_. Threw \<lparr>detail = Some ''Key (email)=(alice@x.com) already exists.''\<rparr>)
          2000 2000
          \<lparr>username = ''alice2'', email = ''alice@x.com'', password = ''secret1''\<rparr> world0) =
     Inr \<lparr>errors = Some [\<lparr>field = ''username'',
              message = ''this username has already been taken''\<rparr>], user = None\<rparr>"
  by (simp add: register_def)

subsection \<open>forgotPassword: the lifetime of a token\<close>

text \<open>
  C2. A reset token resolves to the user's id until 3 days (259,200,000 ms) have
  passed and to nothing afterwards. The code hands 259,200,000 to the store as a
  number of seconds: a token stored at instant 0 for the user with id 7 still
  resolves to 7 four days later.
\<close>

theorem forgotPassword_token_alive_after_four_days:
  "redis_get (1000 * 60 * 60 * 24 * 4) (''forget-password:'' @ ''tok'')
     (redis (snd (forgotPassword alice_only ''tok'' ''forget-password:'' 0 ''alice@x.com'' world0)))
     = Some 7"
  by (simp add: forgotPassword_def redis_get_def redis_set_def lifetime_ms_def alice_only_def
      alice_def world0_def Let_def)

subsection \<open>register and login: the shape of the answer\<close>

text \<open>
  C3. The answer of \<open>register\<close> (and of \<open>login\<close>) is a user or a non-empty list of field
  errors, never both and never neither. The code of \<open>register\<close> answers with neither
  when the insert fails with an error whose detail does not say \<open>already exists\<close>:
  the error is caught and dropped, and the undefined \<open>user\<close> is returned.
\<close>

theorem register_swallowed_insert_error:
  "fst (register (\<lambda>_. None) (\<lambda>p. ''$argon2id$'' @ p)
          (\<lambda>_. Threw \<lparr>detail = Some ''Failing row contains (8, bob, null, null).''\<rparr>)
          2000 2000
          \<lparr>username = ''bob'', email = ''bob@x.com'', password = ''secret1''\<rparr> world0) =
     Inr \<lparr>errors = None, user = None\<rparr>"
  by (simp add: register_def)

subsection \<open>login: the lookup key and the unknown identifier\<close>

text \<open>
  C4, as the spec words it: an identifier nobody has yields a field error on
  \<open>usernameOrEmail\<close> with the message \<open>does not exist\<close>. The message of the code is a
  different string, so the answer is not that field error.
\<close>

theorem login_unknown_user_message_differs:
  "fst (login alice_only (\<lambda>h p. False) ''ghost'' ''pw'' world0) \<noteq>
     Inr \<lparr>errors = Some [\<lparr>field = ''usernameOrEmail'', message = ''does not exist''\<rparr>],
          user = None\<rparr>"
  by (simp add: login_def alice_only_def Let_def)

text \<open>
  C4, amended. Every login call issues one lookup, by email when the identifier
  contains the character \<open>@\<close> and by username otherwise; and whenever that lookup finds
  nobody, the answer is a single field error on \<open>usernameOrEmail\<close> with the message
  \<open>username does not exist\<close>.
\<close>

theorem login_lookup_key_and_unknown_user:
  "queries (snd (login findOne argon2_verify s p w)) =
     queries w @ [if CHR ''@'' \<in> set s then ByEmail s else ByUsername s]
   \<and> (findOne (if CHR ''@'' \<in> set s then ByEmail s else ByUsername s) = None \<longrightarrow>
        fst (login findOne argon2_verify s p w) =
          Inr \<lparr>errors = Some [\<lparr>field = ''usernameOrEmail'',
                   message = ''username does not exist''\<rparr>], user = None\<rparr>)"
  by (simp add: login_def Let_def includes_str_char split: option.splits)

text \<open>The two kinds of identifier, neither of them known to the store.\<close>

theorem login_lookup_key_and_unknown_user_witness:
  "queries (snd (login alice_only (\<lambda>h p. False) ''ghost@x.com'' ''pw'' world0)) =
     [ByEmail ''ghost@x.com'']
   \<and> fst (login alice_only (\<lambda>h p. False) ''ghost@x.com'' ''pw'' world0) =
          Inr \<lparr>errors = Some [\<lparr>field = ''usernameOrEmail'',
                   message = ''username does not exist''\<rparr>], user = None\<rparr>
   \<and> queries (snd (login alice_only (\<lambda>h p. False) ''ghost'' ''pw'' world0)) =
     [ByUsername ''ghost'']
   \<and> fst (login alice_only (\<lambda>h p. False) ''ghost'' ''pw'' world0) =
          Inr \<lparr>errors = Some [\<lparr>field = ''usernameOrEmail'',
                   message = ''username does not exist''\<rparr>], user = None\<rparr>"
  using login_lookup_key_and_unknown_user
      [of alice_only "\<lambda>h p. False" "''ghost@x.com''" "''pw''" world0]
    login_lookup_key_and_unknown_user
      [of alice_only "\<lambda>h p. False" "''ghost''" "''pw''" world0]
  by (simp add: alice_only_def world0_def)

subsection \<open>register: success\<close>

text \<open>
  C5. A register call that succeeds (the validator reports nothing and the insert
  returns the new row) answers with the stored user, and the record that reaches the
  client has no \<open>password\<close> property.
\<close>

theorem register_success_returns_stored_user:
  assumes "validateRegister options = None"
    and "em_insert \<lparr>username = username options, email = email options,
                     password = argon2_hash (password options),
                     created_at = tc, updated_at = tu\<rparr> = Returned (u # rest)"
  shows "fst (register validateRegister argon2_hash em_insert tc tu options w) =
           Inr \<lparr>errors = None, user = Some u\<rparr>
         \<and> map_of (outward u) ''password'' = None"
  using assms by (simp add: register_def Let_def outward_def stored_fields_def)

theorem register_success_returns_stored_user_witness:
  "fst (register (\<lambda>_. None) (\<lambda>p. ''$argon2id$hash'') (\<lambda>_. Returned [alice]) 1000 1000
          \<lparr>username = ''alice'', email = ''alice@x.com'', password = ''secret1''\<rparr> world0) =
     Inr \<lparr>errors = None, user = Some alice\<rparr>
   \<and> map_of (outward alice) ''password'' = None"
  using register_success_returns_stored_user
    [of "\<lambda>_. None" "\<lparr>username = ''alice'', email = ''alice@x.com'', password = ''secret1''\<rparr>"
        "\<lambda>_. Returned [alice]" "\<lambda>p. ''$argon2id$hash''" 1000 1000 alice "[]" world0]
  by simp

subsection \<open>register: after validation\<close>

text \<open>
  C6, as the spec words it: when the validator's result is the empty error sequence,
  register goes on to hash and insert. In the code an empty array is an array like any
  other: it is returned as the errors of the answer, and no insert is issued.
\<close>

theorem register_empty_error_array_is_returned:
  "register (\<lambda>_. Some []) (\<lambda>p. ''$argon2id$hash'') (\<lambda>_. Returned [alice]) 1000 1000
      \<lparr>username = ''alice'', email = ''alice@x.com'', password = ''secret1''\<rparr> world0 =
     (Inr \<lparr>errors = Some [], user = None\<rparr>, world0)"
  by (simp add: register_def)

text \<open>
  C6, amended. For every registration input on which the validator answers null,
  register does not return a validation failure: it issues one insert, of the
  username, the email and the hash of the password, and its answer is the one the
  outcome of that insert determines.
\<close>

theorem register_proceeds_on_null_validation:
  assumes "validateRegister options = None"
  shows "inserts (snd (register validateRegister argon2_hash em_insert tc tu options w)) =
           inserts w @ [\<lparr>username = username options, email = email options,
                          password = argon2_hash (password options),
                          created_at = tc, updated_at = tu\<rparr>]
         \<and> fst (register validateRegister argon2_hash em_insert tc tu options w) =
             (case em_insert \<lparr>username = username options, email = email options,
                          password = argon2_hash (password options),
                          created_at = tc, updated_at = tu\<rparr> of
                Returned result \<Rightarrow>
                  Inr \<lparr>errors = None, user = (case result of [] \<Rightarrow> None | u # _ \<Rightarrow> Some u)\<rparr>
              | Threw err \<Rightarrow>
                  (case detail err of
                     None \<Rightarrow> Inl TypeError
                   | Some d \<Rightarrow>
                       if sublist ''already exists'' d
                       then Inr \<lparr>errors = Some [\<lparr>field = ''username'',
                                    message = ''this username has already been taken''\<rparr>],
                                 user = None\<rparr>
                       else Inr \<lparr>errors = None, user = None\<rparr>))"
  using assms
  by (simp add: register_def Let_def includes_str_sublist
      split: insert_outcome.splits option.splits)

theorem register_proceeds_on_null_validation_witness:
  "inserts (snd (register (\<lambda>_. None) (\<lambda>p. ''$argon2id$hash'') (\<lambda>_. Returned [alice]) 1000 1000
          \<lparr>username = ''alice'', email = ''alice@x.com'', password = ''secret1''\<rparr> world0)) =
     [\<lparr>username = ''alice'', email = ''alice@x.com'', password = ''$argon2id$hash'',
       created_at = 1000, updated_at = 1000\<rparr>]
   \<and> fst (register (\<lambda>_. None) (\<lambda>p. ''$argon2id$hash'') (\<lambda>_. Returned [alice]) 1000 1000
          \<lparr>username = ''alice'', email = ''alice@x.com'', password = ''secret1''\<rparr> world0) =
     Inr \<lparr>errors = None, user = Some alice\<rparr>"
  using register_proceeds_on_null_validation
    [of "\<lambda>_. None" "\<lparr>username = ''alice'', email = ''alice@x.com'', password = ''secret1''\<rparr>"
        "\<lambda>p. ''$argon2id$hash''" "\<lambda>_. Returned [alice]" 1000 1000 world0]
  by (simp add: world0_def)

subsection \<open>forgotPassword: registered and unregistered emails\<close>

text \<open>
  C7. For every email, forgotPassword answers true whether or not the email belongs
  to a registered user, and it stores a token and dispatches a notification exactly
  when the email is registered. The code does not do so for a registered email: for
  \<open>alice@x.com\<close>, the email of the user with id 7, the token is stored under the
  prefixed key, then the call of the undeclared \<open>sendEmail\<close> raises \<open>ReferenceError\<close>;
  the answer is that exception and not true, and no mail has been dispatched.
\<close>

theorem forgotPassword_registered_email_raises:
  "fst (forgotPassword alice_only ''tok'' ''forget-password:'' 0 ''alice@x.com'' world0) =
     Inl ReferenceError
   \<and> redis (snd (forgotPassword alice_only ''tok'' ''forget-password:'' 0 ''alice@x.com'' world0))
       ''forget-password:tok'' = Some (7, 259200000000)
   \<and> mails (snd (forgotPassword alice_only ''tok'' ''forget-password:'' 0 ''alice@x.com'' world0))
       = []"
  by (simp add: forgotPassword_def redis_set_def lifetime_ms_def alice_only_def alice_def
      world0_def Let_def)

text \<open>
  For an email nobody has registered the answer is true, and neither the Token Store
  nor the mails change.
\<close>

lemma forgotPassword_unregistered_unchanged:
  assumes "findOne (ByEmail e) = None"
  shows "fst (forgotPassword findOne tok P now e w) = Inr True
         \<and> redis (snd (forgotPassword findOne tok P now e w)) = redis w
         \<and> mails (snd (forgotPassword findOne tok P now e w)) = mails w"
  using assms by (simp add: forgotPassword_unregistered)

subsection \<open>logout\<close>

text \<open>
  C8. For every logout call the session cookie is cleared, whether destroying the
  session succeeds or reports an error; the answer is true on a clean destroy and
  false on an error, and the error is printed on the console, not thrown.
\<close>

theorem logout_clears_cookie_either_way:
  "cleared_cookies (snd (logout destroy_err COOKIE_NAME w)) = cleared_cookies w @ [COOKIE_NAME]
   \<and> fst (logout destroy_err COOKIE_NAME w) = Inr (destroy_err = None)
   \<and> console (snd (logout destroy_err COOKIE_NAME w)) =
       console w @ (case destroy_err of None \<Rightarrow> [] | Some err \<Rightarrow> [err])"
  by (simp add: logout_def Let_def split: option.splits)

subsection \<open>me\<close>


text \<open>
  What me returns in general: never an error; for a userId other than 0 what the store
  finds for it; the absent value for no userId and for the userId 0.
\<close>

lemma me_returns_session_user:
  "fst (me findOne w) =
     Inr (case session_userId w of
            None \<Rightarrow> None
          | Some uid \<Rightarrow> if uid = 0 then None else findOne (ById uid))"
  by (simp add: me_def truthy_def split: option.splits)

subsection \<open>forgotPassword: two requests in a row\<close>

text \<open>
  Two successive forgotPassword calls for the same registered email. Whether the two
  tokens differ is up to \<open>v4\<close>, which draws them at random; here the tokens are
  parameters. When they differ, the second call leaves the entry of the first token
  as it was: both keys hold the user's id, each with the expiry of its own call, and
  each resolves to the id until that instant. When they are equal, the second call
  writes over the entry of the first.
\<close>

lemma forgotPassword_twice_keeps_both_tokens:
  assumes "findOne (ByEmail e) = Some u" and "tok1 \<noteq> tok2"
  shows "(let w1 = snd (forgotPassword findOne tok1 P now1 e w);
              w2 = snd (forgotPassword findOne tok2 P now2 e w1);
              ttl = lifetime_ms OptEX (1000 * 60 * 60 * 24 * 3)
          in redis w2 (P @ tok1) = redis w1 (P @ tok1)
             \<and> redis w2 (P @ tok1) = Some (id_col u, now1 + ttl)
             \<and> redis w2 (P @ tok2) = Some (id_col u, now2 + ttl)
             \<and> (\<forall>t. redis_get t (P @ tok1) (redis w2) =
                      (if t < now1 + ttl then Some (id_col u) else None))
             \<and> (\<forall>t. redis_get t (P @ tok2) (redis w2) =
                      (if t < now2 + ttl then Some (id_col u) else None)))"
proof -
  define w1 where "w1 = snd (forgotPassword findOne tok1 P now1 e w)"
  define w2 where "w2 = snd (forgotPassword findOne tok2 P now2 e w1)"
  define ttl where "ttl = lifetime_ms OptEX (1000 * 60 * 60 * 24 * 3)"
  have k: "P @ tok1 \<noteq> P @ tok2"
    using assms(2) by simp
  have r1: "redis w1 = redis_set now1 (P @ tok1) (id_col u) OptEX (1000 * 60 * 60 * 24 * 3) (redis w)"
    using assms(1) by (simp add: w1_def forgotPassword_registered)
  have r2: "redis w2 = redis_set now2 (P @ tok2) (id_col u) OptEX (1000 * 60 * 60 * 24 * 3) (redis w1)"
    using assms(1) by (simp add: w2_def forgotPassword_registered)
  have kept: "redis w2 (P @ tok1) = redis w1 (P @ tok1)"
    using k by (simp add: r2 redis_set_def)
  have first: "redis w1 (P @ tok1) = Some (id_col u, now1 + ttl)"
    by (simp add: r1 redis_set_def ttl_def)
  have second: "redis w2 (P @ tok2) = Some (id_col u, now2 + ttl)"
    by (simp add: r2 redis_set_def ttl_def)
  have "redis w2 (P @ tok1) = redis w1 (P @ tok1)
        \<and> redis w2 (P @ tok1) = Some (id_col u, now1 + ttl)
        \<and> redis w2 (P @ tok2) = Some (id_col u, now2 + ttl)
        \<and> (\<forall>t. redis_get t (P @ tok1) (redis w2) =
                 (if t < now1 + ttl then Some (id_col u) else None))
        \<and> (\<forall>t. redis_get t (P @ tok2) (redis w2) =
                 (if t < now2 + ttl then Some (id_col u) else None))"
    using kept first second by (simp add: redis_get_def)
  then show ?thesis
    unfolding w1_def w2_def ttl_def Let_def .
qed

lemma forgotPassword_twice_keeps_both_tokens_example:
  "redis_get 120000 ''forget-password:tok-a''
      (redis (snd (forgotPassword alice_only ''tok-b'' ''forget-password:'' 60000 ''alice@x.com''
         (snd (forgotPassword alice_only ''tok-a'' ''forget-password:'' 0 ''alice@x.com''
            world0)))))
     = Some 7
   \<and> redis_get 120000 ''forget-password:tok-b''
      (redis (snd (forgotPassword alice_only ''tok-b'' ''forget-password:'' 60000 ''alice@x.com''
         (snd (forgotPassword alice_only ''tok-a'' ''forget-password:'' 0 ''alice@x.com''
            world0)))))
     = Some 7"
  using forgotPassword_twice_keeps_both_tokens
    [where findOne = alice_only and e = "''alice@x.com''" and u = alice
       and ?tok1.0 = "''tok-a''" and ?tok2.0 = "''tok-b''" and P = "''forget-password:''"
       and ?now1.0 = 0 and ?now2.0 = 60000 and w = world0]
  by (simp add: alice_only_def alice_def lifetime_ms_def Let_def)

lemma forgotPassword_same_token_overwrites:
  "redis (snd (forgotPassword alice_only ''tok'' ''forget-password:'' 60000 ''alice@x.com''
      (snd (forgotPassword alice_only ''tok'' ''forget-password:'' 0 ''alice@x.com'' world0))))
     ''forget-password:tok'' = Some (7, 259200060000)"
  by (simp add: forgotPassword_def redis_set_def lifetime_ms_def alice_only_def alice_def
      world0_def Let_def)

end
